theory Spec2Isabelle
  imports Main "HOL-Library.Word"
begin

section \<open>The smoker control unit (PlatformIO/src/main.cpp)\<close>

text \<open>
  The firmware keeps all of its state in global variables and runs two endless loops:
  \<^verbatim>\<open>loop()\<close> on core 0 (switch, thermocouples, emergency cutoff, heater and fan) and
  \<^verbatim>\<open>loop1()\<close> on core 1 (rotary encoder and push button). The model below is a
  record of the globals, one function per source function that takes the record and
  returns it updated, and one input record per loop iteration that holds what the
  hardware returns during that iteration: the pin levels, the thermocouple readings and
  the values of \<^verbatim>\<open>millis()\<close>.

  Types. \<^verbatim>\<open>unsigned long\<close> is 32 bits on the RP2040, so the millisecond clock and the
  stored time stamps are \<open>32 word\<close>: subtraction wraps and \<open>\<le>\<close> is the unsigned order,
  as in the source. Temperatures and targets are \<^verbatim>\<open>int\<close> in the source and \<open>int\<close>
  here; the source's arithmetic on them (adding an offset, adding or subtracting 2, the
  difference of two readings) agrees with the mathematical one as long as no value leaves
  the 32-bit range, beyond which C++ leaves the behaviour undefined. The source compares
  \<^verbatim>\<open>top_temp\<close> with \<^verbatim>\<open>desired_temp - temp_buffer\<close> and the spread with the fan
  thresholds in \<^verbatim>\<open>float\<close>; \<^verbatim>\<open>temp_buffer\<close> is the constant 5.0 and every other
  operand is an integer, so the comparisons are exact, and are modelled on \<open>int\<close>, for
  operands of magnitude up to \<open>2^24\<close>. Pin levels are \<open>bool\<close>, \<open>True\<close> for HIGH.
\<close>

subsection \<open>Parameters\<close>

definition THERMO_TOP_OFFSET :: int where "THERMO_TOP_OFFSET = 3"
definition THERMO_BOT_OFFSET :: int where "THERMO_BOT_OFFSET = 3"
definition THERMO_MEAT_OFFSET :: int where "THERMO_MEAT_OFFSET = 0"

definition EMERGENCY_TEMP :: int where "EMERGENCY_TEMP = 250"
definition FAN_CYCLE_TIME :: "32 word" where "FAN_CYCLE_TIME = 60000"
definition FAN_TEMP_DELTA_ON :: int where "FAN_TEMP_DELTA_ON = 30"
definition FAN_TEMP_DELTA_OFF :: int where "FAN_TEMP_DELTA_OFF = 15"
definition HEATER_CYCLE_TIME :: "32 word" where "HEATER_CYCLE_TIME = 10000"

definition temp_buffer :: int where "temp_buffer = 5"
definition button_debounce_time :: "32 word" where "button_debounce_time = 500"

subsection \<open>The globals\<close>

text \<open>
  The two output pins are part of the state: \<open>heater_relay_pin\<close> and \<open>fan_control_pin\<close>
  hold the level last written with \<^verbatim>\<open>digitalWrite\<close>. The source's \<^verbatim>\<open>encoder_pos\<close> is
  never read or written and is left out.
\<close>

record smoker =
  system_on :: bool
  system_on_prev :: bool
  error_state :: bool
  heater_on :: bool
  fan_on :: bool
  last_heater_toggle_time :: "32 word"
  last_fan_toggle_time :: "32 word"
  timer_start_time :: "32 word"
  top_temp :: int
  bottom_temp :: int
  meat_temp :: int
  desired_temp :: int
  desired_meat_temp :: int
  encoder_state_last :: bool
  current_setting :: int
  last_button_press :: "32 word"
  heater_relay_pin :: bool
  fan_control_pin :: bool

text \<open>
  The initialisers of the globals, and the state \<^verbatim>\<open>setup()\<close> leaves: both outputs low
  and \<open>encoder_state_last\<close> the level \<open>clk\<close> read from the encoder clock pin.
\<close>

definition setup_smoker :: "bool \<Rightarrow> smoker" where
  "setup_smoker clk =
     \<lparr> system_on = False, system_on_prev = False, error_state = False,
       heater_on = False, fan_on = False,
       last_heater_toggle_time = 0, last_fan_toggle_time = 0, timer_start_time = 0,
       top_temp = 0, bottom_temp = 0, meat_temp = 0,
       desired_temp = 230, desired_meat_temp = 190,
       encoder_state_last = clk, current_setting = 0, last_button_press = 0,
       heater_relay_pin = False, fan_control_pin = False \<rparr>"

subsection \<open>What the hardware returns during one iteration\<close>

text \<open>
  \<open>thermoTop\<close>, \<open>thermoBot\<close> and \<open>thermoMeat\<close> are the values of
  \<^verbatim>\<open>(int)thermoX.readFahrenheit()\<close>, whatever the sensor library returned (the source
  does not test for an open thermocouple). \<open>millis_loop\<close>, \<open>millis_heater\<close> and
  \<open>millis_fan\<close> are the clock at the three places of one iteration of \<^verbatim>\<open>loop()\<close> that
  deal with the session timer, the heater and the fan.
\<close>

record loop_input =
  on_off_switch_pin :: bool
  millis_loop :: "32 word"
  thermoTop :: int
  thermoBot :: int
  thermoMeat :: int
  millis_heater :: "32 word"
  millis_fan :: "32 word"

record loop1_input =
  encoder_clk_pin :: bool
  encoder_dt_pin :: bool
  encoder_btn_pin :: bool
  millis_button_test :: "32 word"
  millis_button_store :: "32 word"

subsection \<open>controlHeater and controlFan\<close>

definition controlHeater :: "smoker \<Rightarrow> 32 word \<Rightarrow> smoker" where
  "controlHeater s current_time =
     (let s1 = (if meat_temp s \<ge> desired_meat_temp s
                then s\<lparr>desired_temp := desired_meat_temp s\<rparr> else s)
      in if \<not> heater_on s1 \<and> top_temp s1 < desired_temp s1 - temp_buffer
            \<and> current_time - last_heater_toggle_time s1 \<ge> HEATER_CYCLE_TIME
         then s1\<lparr>heater_relay_pin := True, heater_on := True,
                 last_heater_toggle_time := current_time\<rparr>
         else if heater_on s1
                 \<and> (top_temp s1 \<ge> desired_temp s1 \<or> bottom_temp s1 \<ge> desired_temp s1)
                 \<and> current_time - last_heater_toggle_time s1 \<ge> HEATER_CYCLE_TIME
         then s1\<lparr>heater_relay_pin := False, heater_on := False,
                 last_heater_toggle_time := current_time\<rparr>
         else s1)"

definition controlFan :: "smoker \<Rightarrow> 32 word \<Rightarrow> smoker" where
  "controlFan s current_time =
     (let temp_difference = \<bar>top_temp s - bottom_temp s\<bar>
      in if \<not> fan_on s \<and> temp_difference > FAN_TEMP_DELTA_ON
            \<and> current_time - last_fan_toggle_time s \<ge> FAN_CYCLE_TIME
         then s\<lparr>fan_control_pin := True, fan_on := True,
                last_fan_toggle_time := current_time\<rparr>
         else if fan_on s \<and> temp_difference \<le> FAN_TEMP_DELTA_OFF
                 \<and> current_time - last_fan_toggle_time s \<ge> FAN_CYCLE_TIME
         then s\<lparr>fan_control_pin := False, fan_on := False,
                last_fan_toggle_time := current_time\<rparr>
         else s)"

subsection \<open>loop\<close>

text \<open>
  One iteration of \<^verbatim>\<open>loop()\<close> in the order of the source: the switch and the session
  timer, the three readings with their offsets and the limit of 999, the emergency
  check, then either the two controllers or the branch that switches everything off.
  \<^verbatim>\<open>updateDisplay()\<close> only writes to the LCD and changes no global, and
  \<^verbatim>\<open>delay(100)\<close> only lets the clock advance, which the next input record carries.
\<close>

definition read_switch :: "smoker \<Rightarrow> loop_input \<Rightarrow> smoker" where
  "read_switch s i =
     (let s1 = s\<lparr>system_on := \<not> on_off_switch_pin i\<rparr>
      in if system_on s1 \<noteq> system_on_prev s1
         then (let s2 = (if system_on s1 then s1\<lparr>timer_start_time := millis_loop i\<rparr> else s1)
               in s2\<lparr>system_on_prev := system_on s2\<rparr>)
         else s1)"

definition limit_999 :: "int \<Rightarrow> int" where
  "limit_999 t = (if t > 999 then 999 else t)"

definition top_reading :: "loop_input \<Rightarrow> int" where
  "top_reading i = limit_999 (thermoTop i + THERMO_TOP_OFFSET)"

definition bottom_reading :: "loop_input \<Rightarrow> int" where
  "bottom_reading i = limit_999 (thermoBot i + THERMO_BOT_OFFSET)"

definition meat_reading :: "loop_input \<Rightarrow> int" where
  "meat_reading i = limit_999 (thermoMeat i + THERMO_MEAT_OFFSET)"

definition read_temperatures :: "smoker \<Rightarrow> loop_input \<Rightarrow> smoker" where
  "read_temperatures s i =
     s\<lparr>top_temp := top_reading i, bottom_temp := bottom_reading i,
       meat_temp := meat_reading i\<rparr>"

definition emergency_check :: "smoker \<Rightarrow> smoker" where
  "emergency_check s =
     (if top_temp s \<ge> EMERGENCY_TEMP \<or> bottom_temp s \<ge> EMERGENCY_TEMP
         \<or> meat_temp s \<ge> EMERGENCY_TEMP
      then s\<lparr>error_state := True, system_on := False\<rparr> else s)"

definition force_off :: "smoker \<Rightarrow> smoker" where
  "force_off s =
     s\<lparr>heater_relay_pin := False, fan_control_pin := False,
       heater_on := False, fan_on := False\<rparr>"

definition before_control :: "smoker \<Rightarrow> loop_input \<Rightarrow> smoker" where
  "before_control s i = emergency_check (read_temperatures (read_switch s i) i)"

definition loop :: "smoker \<Rightarrow> loop_input \<Rightarrow> smoker" where
  "loop s i =
     (let s1 = before_control s i
      in if system_on s1 \<and> \<not> error_state s1
         then controlFan (controlHeater s1 (millis_heater i)) (millis_fan i)
         else force_off s1)"

subsection \<open>handleEncoder, handleButton and loop1\<close>

text \<open>The remainder of C++, which truncates towards zero.\<close>

definition c_rem :: "int \<Rightarrow> int \<Rightarrow> int" where
  "c_rem a b = sgn a * (\<bar>a\<bar> mod \<bar>b\<bar>)"

definition handleEncoder :: "smoker \<Rightarrow> bool \<Rightarrow> bool \<Rightarrow> smoker" where
  "handleEncoder s currentState dt =
     (let s1 =
        (if currentState \<noteq> encoder_state_last s \<and> currentState
         then (if dt \<noteq> currentState
               then (if current_setting s = 0
                     then s\<lparr>desired_temp := desired_temp s + 2\<rparr>
                     else s\<lparr>desired_meat_temp := desired_meat_temp s + 2\<rparr>)
               else (if current_setting s = 0
                     then s\<lparr>desired_temp := desired_temp s - 2\<rparr>
                     else s\<lparr>desired_meat_temp := desired_meat_temp s - 2\<rparr>))
         else s)
      in s1\<lparr>encoder_state_last := currentState\<rparr>)"

definition handleButton :: "smoker \<Rightarrow> bool \<Rightarrow> 32 word \<Rightarrow> 32 word \<Rightarrow> smoker" where
  "handleButton s btn t_test t_store =
     (if \<not> btn \<and> t_test - last_button_press s > button_debounce_time
      then s\<lparr>current_setting := c_rem (current_setting s + 1) 2,
             last_button_press := t_store\<rparr>
      else s)"

definition loop1 :: "smoker \<Rightarrow> loop1_input \<Rightarrow> smoker" where
  "loop1 s i =
     handleButton (handleEncoder s (encoder_clk_pin i) (encoder_dt_pin i))
       (encoder_btn_pin i) (millis_button_test i) (millis_button_store i)"

subsection \<open>Executions\<close>

text \<open>
  The two loops run on two cores. An execution is modelled as a sequence of whole
  iterations of either loop, in any order; an iteration of \<^verbatim>\<open>loop1()\<close> that writes a
  target while \<^verbatim>\<open>controlHeater()\<close> is reading it is not modelled. \<^verbatim>\<open>loop1()\<close> writes
  the two targets, the selector, the last encoder level and the time of the last button
  press, and nothing else.
\<close>

datatype event = Control loop_input | Input loop1_input

fun step :: "smoker \<Rightarrow> event \<Rightarrow> smoker" where
  "step s (Control i) = loop s i"
| "step s (Input i) = loop1 s i"

fun run :: "smoker \<Rightarrow> event list \<Rightarrow> smoker" where
  "run s [] = s"
| "run s (e # es) = run (step s e) es"

text \<open>The state of the system as the display shows it (row 4 of \<^verbatim>\<open>updateDisplay()\<close>).\<close>

datatype system_state = Off | Running | Error

definition system_state_of :: "smoker \<Rightarrow> system_state" where
  "system_state_of s =
     (if error_state s then Error else if \<not> system_on s then Off else Running)"

text \<open>An input of \<^verbatim>\<open>loop()\<close> whose three clock values are the same \<open>t\<close>.\<close>

definition cycle :: "bool \<Rightarrow> 32 word \<Rightarrow> int \<Rightarrow> int \<Rightarrow> int \<Rightarrow> loop_input" where
  "cycle pin t rtop rbot rmeat =
     \<lparr> on_off_switch_pin = pin, millis_loop = t,
       thermoTop = rtop, thermoBot = rbot, thermoMeat = rmeat,
       millis_heater = t, millis_fan = t \<rparr>"

text \<open>
  The switch shows an Off-to-On edge in an iteration of \<^verbatim>\<open>loop()\<close> when it reads on
  and the previous iteration read it off; this is the test with which the source
  restarts the session timer.
\<close>

fun on_edge :: "smoker \<Rightarrow> event \<Rightarrow> bool" where
  "on_edge s (Control i) = (\<not> on_off_switch_pin i \<and> \<not> system_on_prev s)"
| "on_edge s (Input i) = False"

fun no_on_edge :: "smoker \<Rightarrow> event list \<Rightarrow> bool" where
  "no_on_edge s [] = True"
| "no_on_edge s (e # es) = (\<not> on_edge s e \<and> no_on_edge (step s e) es)"

text \<open>
  The clock values of the iterations in which the heater output changes its level, and of
  those in which a controller toggles its actuator (the iterations that take the
  controller branch and change the flag). The heater's clock value of an iteration is
  \<open>millis_heater\<close>, also when the iteration forces the output low. \<open>apart d ts\<close> says
  that each time stamp of \<open>ts\<close> is at least \<open>d\<close> after the one before it, on the
  wrapping clock.
\<close>

fun heater_output_changes :: "smoker \<Rightarrow> event list \<Rightarrow> 32 word list" where
  "heater_output_changes s [] = []"
| "heater_output_changes s (Control i # es) =
     (if heater_relay_pin (loop s i) \<noteq> heater_relay_pin s then [millis_heater i] else [])
     @ heater_output_changes (loop s i) es"
| "heater_output_changes s (Input i # es) = heater_output_changes (loop1 s i) es"

fun heater_toggles :: "smoker \<Rightarrow> event list \<Rightarrow> 32 word list" where
  "heater_toggles s [] = []"
| "heater_toggles s (Control i # es) =
     (if system_state_of (loop s i) = Running \<and> heater_on (loop s i) \<noteq> heater_on s
      then [millis_heater i] else [])
     @ heater_toggles (loop s i) es"
| "heater_toggles s (Input i # es) = heater_toggles (loop1 s i) es"

fun fan_toggles :: "smoker \<Rightarrow> event list \<Rightarrow> 32 word list" where
  "fan_toggles s [] = []"
| "fan_toggles s (Control i # es) =
     (if system_state_of (loop s i) = Running \<and> fan_on (loop s i) \<noteq> fan_on s
      then [millis_fan i] else [])
     @ fan_toggles (loop s i) es"
| "fan_toggles s (Input i # es) = fan_toggles (loop1 s i) es"


text \<open>An input of \<^verbatim>\<open>loop1()\<close> in which nothing moves and the button is up.\<close>

definition idle :: "loop1_input" where
  "idle = \<lparr> encoder_clk_pin = False, encoder_dt_pin = False, encoder_btn_pin = True,
            millis_button_test = 0, millis_button_store = 0 \<rparr>"

text \<open>
  One detent of the encoder as \<^verbatim>\<open>loop1()\<close> sees it: the clock pin rises, with the data
  pin at the other level when the turn is clockwise, and falls again.
\<close>

definition detent :: "bool \<Rightarrow> event list" where
  "detent clockwise =
     [Input \<lparr> encoder_clk_pin = True, encoder_dt_pin = \<not> clockwise, encoder_btn_pin = True,
              millis_button_test = 0, millis_button_store = 0 \<rparr>,
      Input idle]"

text \<open>The button held down at clock value \<open>t\<close>, the encoder at rest.\<close>

definition press :: "32 word \<Rightarrow> event" where
  "press t =
     Input \<lparr> encoder_clk_pin = False, encoder_dt_pin = False, encoder_btn_pin = False,
             millis_button_test = t, millis_button_store = t \<rparr>"

fun apart :: "32 word \<Rightarrow> 32 word list \<Rightarrow> bool" where
  "apart d (t1 # t2 # ts) = (d \<le> t2 - t1 \<and> apart d (t2 # ts))"
| "apart d ts = True"

section \<open>Properties\<close>

lemmas params =
  THERMO_TOP_OFFSET_def THERMO_BOT_OFFSET_def THERMO_MEAT_OFFSET_def EMERGENCY_TEMP_def
  FAN_CYCLE_TIME_def FAN_TEMP_DELTA_ON_def FAN_TEMP_DELTA_OFF_def HEATER_CYCLE_TIME_def
  temp_buffer_def button_debounce_time_def

lemmas readings = top_reading_def bottom_reading_def meat_reading_def

lemmas loop_defs =
  loop_def before_control_def read_switch_def read_temperatures_def emergency_check_def
  force_off_def controlHeater_def controlFan_def Let_def

lemmas eval_defs = loop_defs setup_smoker_def cycle_def readings limit_999_def params
  system_state_of_def

subsection \<open>What each function leaves alone\<close>

lemma controlHeater_frame:
  "system_on (controlHeater s t) = system_on s"
  "error_state (controlHeater s t) = error_state s"
  "system_on_prev (controlHeater s t) = system_on_prev s"
  "fan_on (controlHeater s t) = fan_on s"
  "fan_control_pin (controlHeater s t) = fan_control_pin s"
  "last_fan_toggle_time (controlHeater s t) = last_fan_toggle_time s"
  "top_temp (controlHeater s t) = top_temp s"
  "bottom_temp (controlHeater s t) = bottom_temp s"
  "meat_temp (controlHeater s t) = meat_temp s"
  "desired_meat_temp (controlHeater s t) = desired_meat_temp s"
  "current_setting (controlHeater s t) = current_setting s"
  by (simp_all add: controlHeater_def Let_def)

lemma controlFan_frame:
  "system_on (controlFan s t) = system_on s"
  "error_state (controlFan s t) = error_state s"
  "system_on_prev (controlFan s t) = system_on_prev s"
  "heater_on (controlFan s t) = heater_on s"
  "heater_relay_pin (controlFan s t) = heater_relay_pin s"
  "last_heater_toggle_time (controlFan s t) = last_heater_toggle_time s"
  "top_temp (controlFan s t) = top_temp s"
  "bottom_temp (controlFan s t) = bottom_temp s"
  "meat_temp (controlFan s t) = meat_temp s"
  "desired_temp (controlFan s t) = desired_temp s"
  "desired_meat_temp (controlFan s t) = desired_meat_temp s"
  "current_setting (controlFan s t) = current_setting s"
  by (simp_all add: controlFan_def Let_def)

lemma force_off_frame:
  "system_on (force_off s) = system_on s"
  "error_state (force_off s) = error_state s"
  "system_on_prev (force_off s) = system_on_prev s"
  "last_heater_toggle_time (force_off s) = last_heater_toggle_time s"
  "last_fan_toggle_time (force_off s) = last_fan_toggle_time s"
  "top_temp (force_off s) = top_temp s"
  "bottom_temp (force_off s) = bottom_temp s"
  "meat_temp (force_off s) = meat_temp s"
  "desired_temp (force_off s) = desired_temp s"
  "desired_meat_temp (force_off s) = desired_meat_temp s"
  "current_setting (force_off s) = current_setting s"
  "heater_on (force_off s) = False"
  "fan_on (force_off s) = False"
  "heater_relay_pin (force_off s) = False"
  "fan_control_pin (force_off s) = False"
  by (simp_all add: force_off_def)

lemma before_control_frame:
  "heater_on (before_control s i) = heater_on s"
  "fan_on (before_control s i) = fan_on s"
  "heater_relay_pin (before_control s i) = heater_relay_pin s"
  "fan_control_pin (before_control s i) = fan_control_pin s"
  "last_heater_toggle_time (before_control s i) = last_heater_toggle_time s"
  "last_fan_toggle_time (before_control s i) = last_fan_toggle_time s"
  "desired_temp (before_control s i) = desired_temp s"
  "desired_meat_temp (before_control s i) = desired_meat_temp s"
  "current_setting (before_control s i) = current_setting s"
  "top_temp (before_control s i) = top_reading i"
  "bottom_temp (before_control s i) = bottom_reading i"
  "meat_temp (before_control s i) = meat_reading i"
  by (simp_all add: before_control_def read_switch_def read_temperatures_def
      emergency_check_def Let_def)

lemma before_control_error:
  "error_state (before_control s i) =
     (error_state s \<or> top_reading i \<ge> EMERGENCY_TEMP \<or> bottom_reading i \<ge> EMERGENCY_TEMP
      \<or> meat_reading i \<ge> EMERGENCY_TEMP)"
  by (simp add: before_control_def read_switch_def read_temperatures_def
      emergency_check_def Let_def)

lemma before_control_system_on:
  "system_on (before_control s i) =
     (\<not> on_off_switch_pin i \<and> top_reading i < EMERGENCY_TEMP
      \<and> bottom_reading i < EMERGENCY_TEMP \<and> meat_reading i < EMERGENCY_TEMP)"
  by (auto simp add: before_control_def read_switch_def read_temperatures_def
      emergency_check_def Let_def)

lemma before_control_system_on_prev:
  "system_on_prev (before_control s i) = (\<not> on_off_switch_pin i)"
  by (auto simp add: before_control_def read_switch_def read_temperatures_def
      emergency_check_def Let_def)

lemma loop_flags:
  "system_on (loop s i) = system_on (before_control s i)"
  "error_state (loop s i) = error_state (before_control s i)"
  "system_on_prev (loop s i) = system_on_prev (before_control s i)"
  by (simp_all add: loop_def Let_def controlFan_frame controlHeater_frame force_off_frame)

lemma loop_running_branch:
  "(system_state_of (loop s i) = Running) =
     (system_on (before_control s i) \<and> \<not> error_state (before_control s i))"
  by (simp add: system_state_of_def loop_flags)

lemma loop_running_iff:
  "(system_state_of (loop s i) = Running) =
     (\<not> on_off_switch_pin i \<and> \<not> error_state s \<and> top_reading i < EMERGENCY_TEMP
      \<and> bottom_reading i < EMERGENCY_TEMP \<and> meat_reading i < EMERGENCY_TEMP)"
  by (auto simp add: loop_running_branch before_control_error before_control_system_on)

lemma loop_not_running:
  assumes "system_state_of (loop s i) \<noteq> Running"
  shows "loop s i = force_off (before_control s i)"
proof -
  from assms have "\<not> (system_on (before_control s i) \<and> \<not> error_state (before_control s i))"
    by (simp add: loop_running_branch)
  then show ?thesis
    by (cases "system_on (before_control s i)") (simp_all add: loop_def Let_def)
qed

lemma loop_is_running:
  assumes "system_state_of (loop s i) = Running"
  shows "loop s i =
    controlFan (controlHeater (before_control s i) (millis_heater i)) (millis_fan i)"
proof -
  from assms have "system_on (before_control s i) \<and> \<not> error_state (before_control s i)"
    by (simp add: loop_running_branch)
  then show ?thesis
    by (simp add: loop_def Let_def)
qed

lemma loop_temps:
  "top_temp (loop s i) = top_reading i" "bottom_temp (loop s i) = bottom_reading i"
  "meat_temp (loop s i) = meat_reading i"
  by (simp_all add: loop_def Let_def controlFan_frame controlHeater_frame force_off_frame
      before_control_frame)

lemma limit_999_le: "limit_999 t \<le> 999"
  by (simp add: limit_999_def)

lemma loop1_frame:
  "system_on (loop1 s i) = system_on s"
  "error_state (loop1 s i) = error_state s"
  "system_on_prev (loop1 s i) = system_on_prev s"
  "heater_on (loop1 s i) = heater_on s"
  "fan_on (loop1 s i) = fan_on s"
  "heater_relay_pin (loop1 s i) = heater_relay_pin s"
  "fan_control_pin (loop1 s i) = fan_control_pin s"
  "last_heater_toggle_time (loop1 s i) = last_heater_toggle_time s"
  "last_fan_toggle_time (loop1 s i) = last_fan_toggle_time s"
  "top_temp (loop1 s i) = top_temp s"
  "bottom_temp (loop1 s i) = bottom_temp s"
  "meat_temp (loop1 s i) = meat_temp s"
  by (simp_all add: loop1_def handleButton_def handleEncoder_def Let_def)

subsection \<open>The limit on the readings\<close>

text \<open>
  Claim C9. For every channel and every sensor value, the reading that an iteration of
  \<^verbatim>\<open>loop()\<close> stores, and that the emergency check, the heater, the fan and the display
  then use, is at most 999. The value read (the truncated thermocouple value plus the
  channel's calibration offset) is replaced by 999 when it is above 999 and is stored
  unchanged when it is at most 999. Nothing after the limit sees the value read: two
  iterations whose limited readings agree end in the same state.
\<close>

theorem readings_limited_to_999:
  "top_temp (loop s i) = limit_999 (thermoTop i + THERMO_TOP_OFFSET)
   \<and> bottom_temp (loop s i) = limit_999 (thermoBot i + THERMO_BOT_OFFSET)
   \<and> meat_temp (loop s i) = limit_999 (thermoMeat i + THERMO_MEAT_OFFSET)
   \<and> top_temp (loop s i) \<le> 999 \<and> bottom_temp (loop s i) \<le> 999 \<and> meat_temp (loop s i) \<le> 999
   \<and> (t > 999 \<longrightarrow> limit_999 t = 999) \<and> (u \<le> 999 \<longrightarrow> limit_999 u = u)
   \<and> (top_reading i = top_reading j \<and> bottom_reading i = bottom_reading j
        \<and> meat_reading i = meat_reading j
        \<longrightarrow> loop s (j\<lparr>thermoTop := thermoTop i, thermoBot := thermoBot i,
                          thermoMeat := thermoMeat i\<rparr>) = loop s j)"
proof -
  have a: "top_temp (loop s i) = limit_999 (thermoTop i + THERMO_TOP_OFFSET)"
    "bottom_temp (loop s i) = limit_999 (thermoBot i + THERMO_BOT_OFFSET)"
    "meat_temp (loop s i) = limit_999 (thermoMeat i + THERMO_MEAT_OFFSET)"
    by (simp_all add: loop_temps readings)
  have b: "(t > 999 \<longrightarrow> limit_999 t = 999) \<and> (u \<le> 999 \<longrightarrow> limit_999 u = u)"
    by (simp add: limit_999_def)
  have c: "loop s (j\<lparr>thermoTop := thermoTop i, thermoBot := thermoBot i,
                          thermoMeat := thermoMeat i\<rparr>) = loop s j"
    if "top_reading i = top_reading j" "bottom_reading i = bottom_reading j"
       "meat_reading i = meat_reading j"
  proof -
    let ?j = "j\<lparr>thermoTop := thermoTop i, thermoBot := thermoBot i, thermoMeat := thermoMeat i\<rparr>"
    have "read_temperatures (read_switch s ?j) ?j = read_temperatures (read_switch s j) j"
      using that by (simp add: read_temperatures_def read_switch_def readings Let_def)
    then have "before_control s ?j = before_control s j"
      by (simp add: before_control_def)
    then show ?thesis
      by (simp add: loop_def Let_def)
  qed
  show ?thesis
    using a b c by (simp add: limit_999_le)
qed

theorem readings_limited_to_999_witness:
  "top_temp (loop (setup_smoker False) (cycle False 20000 2000 500 997)) = 999
   \<and> bottom_temp (loop (setup_smoker False) (cycle False 20000 2000 500 997)) = 503
   \<and> meat_temp (loop (setup_smoker False) (cycle False 20000 2000 500 997)) = 997
   \<and> (1003::int) > 999 \<and> limit_999 1003 = 999
   \<and> (503::int) \<le> 999 \<and> limit_999 503 = 503
   \<and> top_reading (cycle False 20000 2000 500 997) = top_reading (cycle False 20000 997 500 997)
   \<and> loop (setup_smoker False) (cycle False 20000 2000 500 997)
       = loop (setup_smoker False) (cycle False 20000 997 500 997)"
proof -
  let ?s = "setup_smoker False"
  let ?i = "cycle False 20000 2000 500 997"
  let ?j = "cycle False 20000 997 500 997"
  note t = readings_limited_to_999 [of ?s ?i 1003 503 ?j]
  have h: "top_reading ?i = top_reading ?j \<and> bottom_reading ?i = bottom_reading ?j
      \<and> meat_reading ?i = meat_reading ?j"
    by (simp add: cycle_def readings limit_999_def params)
  have upd: "?j\<lparr>thermoTop := thermoTop ?i, thermoBot := thermoBot ?i,
      thermoMeat := thermoMeat ?i\<rparr> = ?i"
    by (simp add: cycle_def)
  from t h have "loop ?s (?j\<lparr>thermoTop := thermoTop ?i, thermoBot := thermoBot ?i,
      thermoMeat := thermoMeat ?i\<rparr>) = loop ?s ?j"
    by blast
  then have same: "loop ?s ?i = loop ?s ?j"
    by (simp only: upd)
  from t have "top_temp (loop ?s ?i) = limit_999 (thermoTop ?i + THERMO_TOP_OFFSET)"
    by blast
  then have top: "top_temp (loop ?s ?i) = 999"
    by (simp add: cycle_def limit_999_def params)
  from t have "bottom_temp (loop ?s ?i) = limit_999 (thermoBot ?i + THERMO_BOT_OFFSET)"
    by blast
  then have bottom: "bottom_temp (loop ?s ?i) = 503"
    by (simp add: cycle_def limit_999_def params)
  from t have "meat_temp (loop ?s ?i) = limit_999 (thermoMeat ?i + THERMO_MEAT_OFFSET)"
    by blast
  then have meat: "meat_temp (loop ?s ?i) = 997"
    by (simp add: cycle_def limit_999_def params)
  from t have lim: "limit_999 1003 = 999 \<and> limit_999 503 = 503"
    by simp
  from top bottom meat lim h same show ?thesis
    by simp
qed

subsection \<open>The heater and the fan controllers\<close>

lemma controlHeater_target:
  "desired_temp (controlHeater s t) =
     (if meat_temp s \<ge> desired_meat_temp s then desired_meat_temp s else desired_temp s)"
  by (simp add: controlHeater_def Let_def)

lemma controlHeater_turns_on:
  "(\<not> heater_on s \<and> heater_on (controlHeater s t)) =
     (\<not> heater_on s \<and> top_temp s < desired_temp (controlHeater s t) - temp_buffer
      \<and> t - last_heater_toggle_time s \<ge> HEATER_CYCLE_TIME)"
  by (simp add: controlHeater_def Let_def)

lemma controlHeater_turns_off:
  "(heater_on s \<and> \<not> heater_on (controlHeater s t)) =
     (heater_on s
      \<and> (top_temp s \<ge> desired_temp (controlHeater s t)
          \<or> bottom_temp s \<ge> desired_temp (controlHeater s t))
      \<and> t - last_heater_toggle_time s \<ge> HEATER_CYCLE_TIME)"
  by (simp add: controlHeater_def Let_def)

lemma controlHeater_pin:
  "heater_relay_pin (controlHeater s t) =
     (if heater_on (controlHeater s t) = heater_on s then heater_relay_pin s
      else heater_on (controlHeater s t))"
  by (simp add: controlHeater_def Let_def)

lemma controlHeater_stamp:
  "last_heater_toggle_time (controlHeater s t) =
     (if heater_on (controlHeater s t) = heater_on s then last_heater_toggle_time s else t)"
  by (simp add: controlHeater_def Let_def)

lemma controlFan_turns_on:
  "(\<not> fan_on s \<and> fan_on (controlFan s t)) =
     (\<not> fan_on s \<and> \<bar>top_temp s - bottom_temp s\<bar> > FAN_TEMP_DELTA_ON
      \<and> t - last_fan_toggle_time s \<ge> FAN_CYCLE_TIME)"
  by (simp add: controlFan_def Let_def)

lemma controlFan_turns_off:
  "(fan_on s \<and> \<not> fan_on (controlFan s t)) =
     (fan_on s \<and> \<bar>top_temp s - bottom_temp s\<bar> \<le> FAN_TEMP_DELTA_OFF
      \<and> t - last_fan_toggle_time s \<ge> FAN_CYCLE_TIME)"
  by (simp add: controlFan_def Let_def)


lemma controlFan_stamp:
  "last_fan_toggle_time (controlFan s t) =
     (if fan_on (controlFan s t) = fan_on s then last_fan_toggle_time s else t)"
  by (simp add: controlFan_def Let_def)

lemma loop_heater_part:
  assumes "system_state_of (loop s i) = Running"
  shows "heater_on (loop s i) = heater_on (controlHeater (before_control s i) (millis_heater i))"
    "heater_relay_pin (loop s i)
       = heater_relay_pin (controlHeater (before_control s i) (millis_heater i))"
    "last_heater_toggle_time (loop s i)
       = last_heater_toggle_time (controlHeater (before_control s i) (millis_heater i))"
    "desired_temp (loop s i) = desired_temp (controlHeater (before_control s i) (millis_heater i))"
  by (simp_all add: loop_is_running [OF assms] controlFan_frame)

lemma loop_fan_part:
  assumes "system_state_of (loop s i) = Running"
  shows "fan_on (loop s i) = fan_on (controlFan (before_control s i) (millis_fan i))"
    "fan_control_pin (loop s i) = fan_control_pin (controlFan (before_control s i) (millis_fan i))"
    "last_fan_toggle_time (loop s i)
       = last_fan_toggle_time (controlFan (before_control s i) (millis_fan i))"
  by (simp_all add: loop_is_running [OF assms] controlFan_def controlHeater_frame Let_def)

text \<open>
  Claim C5. An evaluation of \<^verbatim>\<open>controlHeater()\<close> first settles the enclosure target
  (the probe target when the probe reading has reached it, the stored target otherwise).
  It turns the heater on exactly when the heater is off, the Top reading is strictly
  below that target minus the buffer of 5 degrees, and at least 10000 ms have elapsed on
  the clock since the recorded heater toggle. It turns the heater off exactly when the
  heater is on, the Top or the Bottom reading is at or above the target, and the same
  time has elapsed. Whenever it changes the flag it drives the relay output to the new
  value of the flag (high on turning on, low on turning off) and records the clock as the
  time of the toggle. In every other case the flag, the output and the time stamp stay
  as they were. In an iteration of \<^verbatim>\<open>loop()\<close> that is Running, the heater flag, the
  relay output, the time stamp and the enclosure target are what this evaluation leaves,
  applied to the state of the previous iteration with the readings of this one.
\<close>

theorem heater_control_rule:
  "temp_buffer = 5 \<and> HEATER_CYCLE_TIME = 10000
   \<and> desired_temp (controlHeater s t) =
       (if meat_temp s \<ge> desired_meat_temp s then desired_meat_temp s else desired_temp s)
   \<and> (\<not> heater_on s \<and> heater_on (controlHeater s t)) =
       (\<not> heater_on s \<and> top_temp s < desired_temp (controlHeater s t) - temp_buffer
        \<and> t - last_heater_toggle_time s \<ge> HEATER_CYCLE_TIME)
   \<and> (heater_on s \<and> \<not> heater_on (controlHeater s t)) =
       (heater_on s
        \<and> (top_temp s \<ge> desired_temp (controlHeater s t)
            \<or> bottom_temp s \<ge> desired_temp (controlHeater s t))
        \<and> t - last_heater_toggle_time s \<ge> HEATER_CYCLE_TIME)
   \<and> heater_relay_pin (controlHeater s t) =
       (if heater_on (controlHeater s t) = heater_on s then heater_relay_pin s
        else heater_on (controlHeater s t))
   \<and> last_heater_toggle_time (controlHeater s t) =
       (if heater_on (controlHeater s t) = heater_on s then last_heater_toggle_time s else t)
   \<and> (\<not> heater_on s \<and> heater_on (controlHeater s t)
        \<longrightarrow> heater_relay_pin (controlHeater s t)
            \<and> last_heater_toggle_time (controlHeater s t) = t)
   \<and> (heater_on s \<and> \<not> heater_on (controlHeater s t)
        \<longrightarrow> \<not> heater_relay_pin (controlHeater s t)
            \<and> last_heater_toggle_time (controlHeater s t) = t)
   \<and> (\<not> (\<not> heater_on s \<and> top_temp s < desired_temp (controlHeater s t) - temp_buffer
            \<and> t - last_heater_toggle_time s \<ge> HEATER_CYCLE_TIME)
        \<and> \<not> (heater_on s
            \<and> (top_temp s \<ge> desired_temp (controlHeater s t)
                \<or> bottom_temp s \<ge> desired_temp (controlHeater s t))
            \<and> t - last_heater_toggle_time s \<ge> HEATER_CYCLE_TIME)
        \<longrightarrow> heater_on (controlHeater s t) = heater_on s
            \<and> heater_relay_pin (controlHeater s t) = heater_relay_pin s
            \<and> last_heater_toggle_time (controlHeater s t) = last_heater_toggle_time s)
   \<and> (system_state_of (loop s i) = Running
        \<longrightarrow> heater_on (loop s i)
              = heater_on (controlHeater (before_control s i) (millis_heater i))
            \<and> heater_relay_pin (loop s i)
              = heater_relay_pin (controlHeater (before_control s i) (millis_heater i))
            \<and> last_heater_toggle_time (loop s i)
              = last_heater_toggle_time (controlHeater (before_control s i) (millis_heater i))
            \<and> desired_temp (loop s i)
              = desired_temp (controlHeater (before_control s i) (millis_heater i))
            \<and> heater_on (before_control s i) = heater_on s
            \<and> heater_relay_pin (before_control s i) = heater_relay_pin s
            \<and> last_heater_toggle_time (before_control s i) = last_heater_toggle_time s
            \<and> desired_temp (before_control s i) = desired_temp s
            \<and> top_temp (before_control s i) = top_reading i
            \<and> bottom_temp (before_control s i) = bottom_reading i)"
proof -
  have thresholds: "temp_buffer = 5 \<and> HEATER_CYCLE_TIME = 10000"
    by (simp add: params)
  have pin: "heater_relay_pin (controlHeater s t) =
       (if heater_on (controlHeater s t) = heater_on s then heater_relay_pin s
        else heater_on (controlHeater s t))"
    by (rule controlHeater_pin)
  have stamp: "last_heater_toggle_time (controlHeater s t) =
       (if heater_on (controlHeater s t) = heater_on s then last_heater_toggle_time s else t)"
    by (rule controlHeater_stamp)
  have turned_on: "heater_relay_pin (controlHeater s t)
      \<and> last_heater_toggle_time (controlHeater s t) = t"
    if "\<not> heater_on s \<and> heater_on (controlHeater s t)"
    using that by (simp add: controlHeater_pin controlHeater_stamp)
  have turned_off: "\<not> heater_relay_pin (controlHeater s t)
      \<and> last_heater_toggle_time (controlHeater s t) = t"
    if "heater_on s \<and> \<not> heater_on (controlHeater s t)"
    using that by (simp add: controlHeater_pin controlHeater_stamp)
  have hold: "heater_on (controlHeater s t) = heater_on s
      \<and> heater_relay_pin (controlHeater s t) = heater_relay_pin s
      \<and> last_heater_toggle_time (controlHeater s t) = last_heater_toggle_time s"
    if "\<not> (\<not> heater_on s \<and> top_temp s < desired_temp (controlHeater s t) - temp_buffer
            \<and> t - last_heater_toggle_time s \<ge> HEATER_CYCLE_TIME)"
       "\<not> (heater_on s
            \<and> (top_temp s \<ge> desired_temp (controlHeater s t)
                \<or> bottom_temp s \<ge> desired_temp (controlHeater s t))
            \<and> t - last_heater_toggle_time s \<ge> HEATER_CYCLE_TIME)"
  proof -
    from that have "heater_on (controlHeater s t) = heater_on s"
      using controlHeater_turns_on [of s t] controlHeater_turns_off [of s t] by blast
    then show ?thesis
      by (simp add: controlHeater_pin controlHeater_stamp)
  qed
  have running: "heater_on (loop s i)
        = heater_on (controlHeater (before_control s i) (millis_heater i))
      \<and> heater_relay_pin (loop s i)
        = heater_relay_pin (controlHeater (before_control s i) (millis_heater i))
      \<and> last_heater_toggle_time (loop s i)
        = last_heater_toggle_time (controlHeater (before_control s i) (millis_heater i))
      \<and> desired_temp (loop s i)
        = desired_temp (controlHeater (before_control s i) (millis_heater i))"
    if "system_state_of (loop s i) = Running"
    using loop_heater_part [OF that] by simp
  have before: "heater_on (before_control s i) = heater_on s
      \<and> heater_relay_pin (before_control s i) = heater_relay_pin s
      \<and> last_heater_toggle_time (before_control s i) = last_heater_toggle_time s
      \<and> desired_temp (before_control s i) = desired_temp s
      \<and> top_temp (before_control s i) = top_reading i
      \<and> bottom_temp (before_control s i) = bottom_reading i"
    by (simp add: before_control_frame)
  from thresholds controlHeater_target [of s t] controlHeater_turns_on [of s t]
    controlHeater_turns_off [of s t] pin stamp turned_on turned_off hold running before
  show ?thesis
    by blast
qed

theorem heater_control_rule_witness:
  "heater_on (controlHeater (setup_smoker False) 5000) = heater_on (setup_smoker False)
   \<and> heater_relay_pin (controlHeater (setup_smoker False) 5000)
       = heater_relay_pin (setup_smoker False)
   \<and> \<not> heater_on (setup_smoker False)
   \<and> heater_on (controlHeater (setup_smoker False) 20000)
   \<and> heater_relay_pin (controlHeater (setup_smoker False) 20000)
   \<and> last_heater_toggle_time (controlHeater (setup_smoker False) 20000) = 20000
   \<and> heater_on (loop (setup_smoker False) (cycle False 20000 221 217 100))
   \<and> \<not> heater_on
        (controlHeater
          (before_control (loop (setup_smoker False) (cycle False 20000 221 217 100))
             (cycle False 30000 228 217 100)) 30000)
   \<and> \<not> heater_relay_pin
        (controlHeater
          (before_control (loop (setup_smoker False) (cycle False 20000 221 217 100))
             (cycle False 30000 228 217 100)) 30000)
   \<and> last_heater_toggle_time
        (controlHeater
          (before_control (loop (setup_smoker False) (cycle False 20000 221 217 100))
             (cycle False 30000 228 217 100)) 30000)
       = 30000
   \<and> system_state_of (loop (setup_smoker False) (cycle False 20000 221 217 100)) = Running
   \<and> heater_relay_pin (loop (setup_smoker False) (cycle False 20000 221 217 100))"
proof -
  let ?s = "setup_smoker False"
  let ?i = "cycle False 20000 221 217 100"
  let ?u = "before_control (loop (setup_smoker False) (cycle False 20000 221 217 100))
      (cycle False 30000 228 217 100)"
  note hold = heater_control_rule [of ?s 5000 ?i]
  note on = heater_control_rule [of ?s 20000 ?i]
  note off = heater_control_rule [of ?u 30000 ?i]
  have s: "\<not> heater_on ?s"
    by code_simp
  have run: "system_state_of (loop ?s ?i) = Running"
    by code_simp
  have "\<not> (\<not> heater_on ?s \<and> top_temp ?s < desired_temp (controlHeater ?s 5000) - temp_buffer
            \<and> 5000 - last_heater_toggle_time ?s \<ge> HEATER_CYCLE_TIME)"
    by code_simp
  moreover have "\<not> (heater_on ?s
            \<and> (top_temp ?s \<ge> desired_temp (controlHeater ?s 5000)
                \<or> bottom_temp ?s \<ge> desired_temp (controlHeater ?s 5000))
            \<and> 5000 - last_heater_toggle_time ?s \<ge> HEATER_CYCLE_TIME)"
    by code_simp
  ultimately have h: "heater_on (controlHeater ?s 5000) = heater_on ?s
      \<and> heater_relay_pin (controlHeater ?s 5000) = heater_relay_pin ?s"
    using hold by blast
  have "\<not> heater_on ?s \<and> top_temp ?s < desired_temp (controlHeater ?s 20000) - temp_buffer
      \<and> 20000 - last_heater_toggle_time ?s \<ge> HEATER_CYCLE_TIME"
    by code_simp
  with on have turned_on: "\<not> heater_on ?s \<and> heater_on (controlHeater ?s 20000)"
    by blast
  with on have n: "heater_relay_pin (controlHeater ?s 20000)
      \<and> last_heater_toggle_time (controlHeater ?s 20000) = 20000"
    by blast
  have "heater_on ?u
      \<and> (top_temp ?u \<ge> desired_temp (controlHeater ?u 30000)
          \<or> bottom_temp ?u \<ge> desired_temp (controlHeater ?u 30000))
      \<and> 30000 - last_heater_toggle_time ?u \<ge> HEATER_CYCLE_TIME"
    by code_simp
  with off have turned_off: "heater_on ?u \<and> \<not> heater_on (controlHeater ?u 30000)"
    by blast
  with off have f: "\<not> heater_relay_pin (controlHeater ?u 30000)
      \<and> last_heater_toggle_time (controlHeater ?u 30000) = 30000"
    by blast
  have "heater_relay_pin (controlHeater (before_control ?s ?i) (millis_heater ?i))"
    by code_simp
  moreover from on run
  have "heater_relay_pin (loop ?s ?i)
      = heater_relay_pin (controlHeater (before_control ?s ?i) (millis_heater ?i))"
    by blast
  ultimately have l: "heater_relay_pin (loop ?s ?i)"
    by simp
  have "heater_on (controlHeater (before_control ?s ?i) (millis_heater ?i))"
    by code_simp
  moreover from on run
  have "heater_on (loop ?s ?i)
      = heater_on (controlHeater (before_control ?s ?i) (millis_heater ?i))"
    by blast
  ultimately have lo: "heater_on (loop ?s ?i)"
    by simp
  from s h turned_on n turned_off f run l lo show ?thesis
    by blast
qed

subsection \<open>Outside the Running state\<close>

text \<open>
  Claim C4. An iteration of \<^verbatim>\<open>loop()\<close> does not end in the Running state exactly when
  the switch reads off, the error is latched, or a reading is at or above the emergency
  temperature. Every such iteration takes the branch that switches everything off: at
  its end both flags are off and both outputs are low, whatever the time stamps of the
  last toggles and the clock are. Forcing off twice is the same as forcing off once, and
  a second such iteration leaves the flags and outputs as the first left them.
\<close>

theorem forced_off_outside_running:
  "(system_state_of (loop s i) \<noteq> Running) =
       (on_off_switch_pin i \<or> error_state s \<or> top_reading i \<ge> EMERGENCY_TEMP
        \<or> bottom_reading i \<ge> EMERGENCY_TEMP \<or> meat_reading i \<ge> EMERGENCY_TEMP)
   \<and> (system_state_of (loop s i) \<noteq> Running
        \<longrightarrow> loop s i = force_off (before_control s i)
            \<and> \<not> heater_on (loop s i) \<and> \<not> fan_on (loop s i)
            \<and> \<not> heater_relay_pin (loop s i) \<and> \<not> fan_control_pin (loop s i))
   \<and> force_off (force_off s) = force_off s
   \<and> (system_state_of (loop s i) \<noteq> Running \<and> system_state_of (loop (loop s i) j) \<noteq> Running
        \<longrightarrow> heater_on (loop (loop s i) j) = heater_on (loop s i)
            \<and> fan_on (loop (loop s i) j) = fan_on (loop s i)
            \<and> heater_relay_pin (loop (loop s i) j) = heater_relay_pin (loop s i)
            \<and> fan_control_pin (loop (loop s i) j) = fan_control_pin (loop s i))"
proof -
  have a: "(system_state_of (loop s i) \<noteq> Running) =
       (on_off_switch_pin i \<or> error_state s \<or> top_reading i \<ge> EMERGENCY_TEMP
        \<or> bottom_reading i \<ge> EMERGENCY_TEMP \<or> meat_reading i \<ge> EMERGENCY_TEMP)"
    by (auto simp add: loop_running_iff)
  have b: "loop s i = force_off (before_control s i)
            \<and> \<not> heater_on (loop s i) \<and> \<not> fan_on (loop s i)
            \<and> \<not> heater_relay_pin (loop s i) \<and> \<not> fan_control_pin (loop s i)"
    if "system_state_of (loop s i) \<noteq> Running" for s i
    by (simp add: loop_not_running [OF that] force_off_frame)
  have c: "force_off (force_off s) = force_off s"
    by (simp add: force_off_def)
  have d: "heater_on (loop (loop s i) j) = heater_on (loop s i)
            \<and> fan_on (loop (loop s i) j) = fan_on (loop s i)
            \<and> heater_relay_pin (loop (loop s i) j) = heater_relay_pin (loop s i)
            \<and> fan_control_pin (loop (loop s i) j) = fan_control_pin (loop s i)"
    if "system_state_of (loop s i) \<noteq> Running"
       "system_state_of (loop (loop s i) j) \<noteq> Running"
    using b [OF that(1)] b [OF that(2)] by (simp add: force_off_frame)
  from a b [of s i] c d show ?thesis
    by blast
qed

theorem forced_off_outside_running_witness:
  "system_state_of (loop (loop (setup_smoker False) (cycle False 20000 100 100 100))
       (cycle True 20100 100 100 100)) \<noteq> Running
   \<and> heater_on (loop (setup_smoker False) (cycle False 20000 100 100 100))
   \<and> \<not> heater_on (loop (loop (setup_smoker False) (cycle False 20000 100 100 100))
       (cycle True 20100 100 100 100))
   \<and> \<not> heater_relay_pin (loop (loop (setup_smoker False) (cycle False 20000 100 100 100))
       (cycle True 20100 100 100 100))
   \<and> system_state_of (loop (loop (loop (setup_smoker False) (cycle False 20000 100 100 100))
       (cycle True 20100 100 100 100)) (cycle True 20200 100 100 100)) \<noteq> Running
   \<and> \<not> heater_on (loop (loop (loop (setup_smoker False) (cycle False 20000 100 100 100))
       (cycle True 20100 100 100 100)) (cycle True 20200 100 100 100))"
proof -
  let ?s = "loop (setup_smoker False) (cycle False 20000 100 100 100)"
  let ?i = "cycle True 20100 100 100 100"
  let ?j = "cycle True 20200 100 100 100"
  note r = forced_off_outside_running [of ?s ?i ?j]
  have on: "heater_on ?s"
    by (simp add: eval_defs)
  have n1: "system_state_of (loop ?s ?i) \<noteq> Running"
    using r by (simp add: cycle_def)
  have n2: "system_state_of (loop (loop ?s ?i) ?j) \<noteq> Running"
    by (simp add: loop_running_iff cycle_def)
  from r n1 have off: "\<not> heater_on (loop ?s ?i) \<and> \<not> heater_relay_pin (loop ?s ?i)"
    by blast
  from r n1 n2 have "heater_on (loop (loop ?s ?i) ?j) = heater_on (loop ?s ?i)"
    by blast
  with off on n1 n2 show ?thesis
    by simp
qed

subsection \<open>The fan's hysteresis\<close>





subsection \<open>After a forced switch-off\<close>

text \<open>
  Claim C10. The branch of \<^verbatim>\<open>loop()\<close> taken when the system is off or in Error sets
  both flags to off and drives both outputs low, and leaves the two toggle time stamps
  and the two targets as they were; so does every iteration that is not Running. As a
  consequence, in the first Running iteration after it, the heater turns on exactly when
  the Top reading is below the target minus the buffer and the dwell time has elapsed
  since the time stamp recorded before the forced switch-off, and the fan likewise:
  how long ago the forced switch-off happened plays no part.
\<close>

theorem forced_off_keeps_stamps_and_targets:
  "heater_on (force_off s) = False \<and> fan_on (force_off s) = False
   \<and> heater_relay_pin (force_off s) = False \<and> fan_control_pin (force_off s) = False
   \<and> last_heater_toggle_time (force_off s) = last_heater_toggle_time s
   \<and> last_fan_toggle_time (force_off s) = last_fan_toggle_time s
   \<and> desired_temp (force_off s) = desired_temp s
   \<and> desired_meat_temp (force_off s) = desired_meat_temp s
   \<and> (system_state_of (loop s i) \<noteq> Running
        \<longrightarrow> loop s i = force_off (before_control s i)
            \<and> last_heater_toggle_time (loop s i) = last_heater_toggle_time s
            \<and> last_fan_toggle_time (loop s i) = last_fan_toggle_time s
            \<and> desired_temp (loop s i) = desired_temp s
            \<and> desired_meat_temp (loop s i) = desired_meat_temp s)
   \<and> (system_state_of (loop s i) \<noteq> Running \<and> system_state_of (loop (loop s i) j) = Running
        \<longrightarrow> heater_on (loop (loop s i) j) =
              (top_reading j < desired_temp (loop (loop s i) j) - temp_buffer
               \<and> millis_heater j - last_heater_toggle_time s \<ge> HEATER_CYCLE_TIME)
            \<and> fan_on (loop (loop s i) j) =
              (\<bar>top_reading j - bottom_reading j\<bar> > FAN_TEMP_DELTA_ON
               \<and> millis_fan j - last_fan_toggle_time s \<ge> FAN_CYCLE_TIME))"
proof -
  have a: "loop s i = force_off (before_control s i)
            \<and> last_heater_toggle_time (loop s i) = last_heater_toggle_time s
            \<and> last_fan_toggle_time (loop s i) = last_fan_toggle_time s
            \<and> desired_temp (loop s i) = desired_temp s
            \<and> desired_meat_temp (loop s i) = desired_meat_temp s"
    if "system_state_of (loop s i) \<noteq> Running"
    by (simp add: loop_not_running [OF that] force_off_frame before_control_frame)
  have b: "heater_on (loop (loop s i) j) =
              (top_reading j < desired_temp (loop (loop s i) j) - temp_buffer
               \<and> millis_heater j - last_heater_toggle_time s \<ge> HEATER_CYCLE_TIME)
            \<and> fan_on (loop (loop s i) j) =
              (\<bar>top_reading j - bottom_reading j\<bar> > FAN_TEMP_DELTA_ON
               \<and> millis_fan j - last_fan_toggle_time s \<ge> FAN_CYCLE_TIME)"
    if off: "system_state_of (loop s i) \<noteq> Running"
      and on: "system_state_of (loop (loop s i) j) = Running"
  proof -
    let ?s1 = "loop s i"
    let ?b = "before_control ?s1 j"
    have s1: "\<not> heater_on ?s1" "\<not> fan_on ?s1"
      "last_heater_toggle_time ?s1 = last_heater_toggle_time s"
      "last_fan_toggle_time ?s1 = last_fan_toggle_time s"
      by (simp_all add: loop_not_running [OF off] force_off_frame before_control_frame)
    have h: "heater_on (controlHeater ?b (millis_heater j)) =
        (top_reading j < desired_temp (controlHeater ?b (millis_heater j)) - temp_buffer
         \<and> millis_heater j - last_heater_toggle_time s \<ge> HEATER_CYCLE_TIME)"
      using controlHeater_turns_on [of ?b "millis_heater j"] s1
      by (simp add: before_control_frame)
    have f: "fan_on (controlFan ?b (millis_fan j)) =
        (\<bar>top_reading j - bottom_reading j\<bar> > FAN_TEMP_DELTA_ON
         \<and> millis_fan j - last_fan_toggle_time s \<ge> FAN_CYCLE_TIME)"
      using controlFan_turns_on [of ?b "millis_fan j"] s1
      by (simp add: before_control_frame)
    from h f show ?thesis
      by (simp add: loop_heater_part [OF on] loop_fan_part [OF on])
  qed
  from a b show ?thesis
    by (simp add: force_off_frame)
qed

theorem forced_off_keeps_stamps_and_targets_witness:
  "heater_on (loop (setup_smoker False) (cycle False 20000 100 100 100))
   \<and> last_heater_toggle_time (loop (setup_smoker False) (cycle False 20000 100 100 100)) = 20000
   \<and> system_state_of (loop (loop (setup_smoker False) (cycle False 20000 100 100 100))
        (cycle True 40000 100 100 100)) \<noteq> Running
   \<and> \<not> heater_on (loop (loop (setup_smoker False) (cycle False 20000 100 100 100))
        (cycle True 40000 100 100 100))
   \<and> last_heater_toggle_time (loop (loop (setup_smoker False) (cycle False 20000 100 100 100))
        (cycle True 40000 100 100 100)) = 20000
   \<and> system_state_of (loop (loop (loop (setup_smoker False) (cycle False 20000 100 100 100))
        (cycle True 40000 100 100 100)) (cycle False 40100 100 100 100)) = Running
   \<and> heater_on (loop (loop (loop (setup_smoker False) (cycle False 20000 100 100 100))
        (cycle True 40000 100 100 100)) (cycle False 40100 100 100 100))"
proof -
  let ?s = "loop (setup_smoker False) (cycle False 20000 100 100 100)"
  let ?i = "cycle True 40000 100 100 100"
  let ?j = "cycle False 40100 100 100 100"
  note r = forced_off_keeps_stamps_and_targets [of ?s ?i ?j]
  have s: "heater_on ?s \<and> last_heater_toggle_time ?s = 20000 \<and> \<not> error_state ?s
      \<and> desired_temp ?s = 230 \<and> desired_meat_temp ?s = 190"
    by (simp add: eval_defs)
  have off: "system_state_of (loop ?s ?i) \<noteq> Running"
    by (simp add: loop_running_iff cycle_def)
  have on: "system_state_of (loop (loop ?s ?i) ?j) = Running"
    using s by (simp add: loop_running_iff loop_flags before_control_error cycle_def
        readings limit_999_def params)
  from r off have frame: "last_heater_toggle_time (loop ?s ?i) = last_heater_toggle_time ?s
      \<and> desired_temp (loop ?s ?i) = desired_temp ?s
      \<and> desired_meat_temp (loop ?s ?i) = desired_meat_temp ?s"
    by blast
  from r off have "loop ?s ?i = force_off (before_control ?s ?i)"
    by blast
  then have "heater_on (loop ?s ?i) = heater_on (force_off (before_control ?s ?i))"
    by (rule arg_cong)
  then have hoff: "\<not> heater_on (loop ?s ?i)"
    by (simp only: force_off_frame simp_thms)
  have rd: "meat_reading ?j = 100 \<and> top_reading ?j = 103 \<and> millis_heater ?j = 40100"
    by (simp add: cycle_def readings limit_999_def params)
  have "desired_temp (loop (loop ?s ?i) ?j) =
      (if meat_reading ?j \<ge> desired_meat_temp (loop ?s ?i)
       then desired_meat_temp (loop ?s ?i) else desired_temp (loop ?s ?i))"
    by (simp only: loop_heater_part(4) [OF on] controlHeater_target before_control_frame)
  with frame s rd have target: "desired_temp (loop (loop ?s ?i) ?j) = 230"
    by simp
  from r off on have "heater_on (loop (loop ?s ?i) ?j) =
      (top_reading ?j < desired_temp (loop (loop ?s ?i) ?j) - temp_buffer
       \<and> millis_heater ?j - last_heater_toggle_time ?s \<ge> HEATER_CYCLE_TIME)"
    by blast
  with target s rd have "heater_on (loop (loop ?s ?i) ?j)"
    by (simp add: params)
  with s off on hoff frame show ?thesis
    by simp
qed

subsection \<open>The emergency latch\<close>

lemma error_state_step: "error_state s \<Longrightarrow> error_state (step s e)"
  by (cases e) (simp_all add: loop_flags before_control_error loop1_frame)

lemma latched_step:
  assumes "error_state s" "\<not> heater_on s" "\<not> fan_on s" "\<not> heater_relay_pin s"
    "\<not> fan_control_pin s"
  shows "error_state (step s e) \<and> \<not> heater_on (step s e) \<and> \<not> fan_on (step s e)
    \<and> \<not> heater_relay_pin (step s e) \<and> \<not> fan_control_pin (step s e)"
proof (cases e)
  case (Control i)
  from assms(1) have "system_state_of (loop s i) \<noteq> Running"
    by (simp add: loop_running_iff)
  then have "loop s i = force_off (before_control s i)"
    by (rule loop_not_running)
  with Control assms(1) show ?thesis
    by (simp add: force_off_frame before_control_error)
next
  case (Input i)
  with assms show ?thesis
    by (simp add: loop1_frame)
qed

lemma latched_run:
  "error_state s \<Longrightarrow> \<not> heater_on s \<Longrightarrow> \<not> fan_on s \<Longrightarrow> \<not> heater_relay_pin s \<Longrightarrow>
   \<not> fan_control_pin s \<Longrightarrow>
   error_state (run s es) \<and> \<not> heater_on (run s es) \<and> \<not> fan_on (run s es)
    \<and> \<not> heater_relay_pin (run s es) \<and> \<not> fan_control_pin (run s es)"
proof (induction es arbitrary: s)
  case Nil
  then show ?case by simp
next
  case (Cons e es)
  from Cons.prems have "error_state (step s e) \<and> \<not> heater_on (step s e) \<and> \<not> fan_on (step s e)
    \<and> \<not> heater_relay_pin (step s e) \<and> \<not> fan_control_pin (step s e)"
    by (rule latched_step)
  then show ?case
    using Cons.IH [of "step s e"] by simp
qed

lemma trip_latches:
  assumes "top_reading i \<ge> EMERGENCY_TEMP \<or> bottom_reading i \<ge> EMERGENCY_TEMP
    \<or> meat_reading i \<ge> EMERGENCY_TEMP"
  shows "error_state (loop s i) \<and> \<not> heater_on (loop s i) \<and> \<not> fan_on (loop s i)
    \<and> \<not> heater_relay_pin (loop s i) \<and> \<not> fan_control_pin (loop s i)"
proof -
  from assms have "system_state_of (loop s i) \<noteq> Running"
    by (auto simp add: loop_running_iff)
  then have "loop s i = force_off (before_control s i)"
    by (rule loop_not_running)
  with assms show ?thesis
    by (simp add: force_off_frame before_control_error)
qed

text \<open>
  Claim C2. In any iteration of \<^verbatim>\<open>loop()\<close> in which one of the three readings is at or
  above the emergency temperature of 250 degrees (so in the first such iteration), the
  system is in the Error state and the heater and the fan are off, flags and outputs, at
  the end of that same iteration (\<open>n = 0\<close>), and after every further iteration of
  either loop (\<open>n > 0\<close>), whatever the later readings are, as long as the switch shows
  no Off-to-On edge.
\<close>

theorem emergency_latch:
  assumes "top_reading i \<ge> EMERGENCY_TEMP \<or> bottom_reading i \<ge> EMERGENCY_TEMP
    \<or> meat_reading i \<ge> EMERGENCY_TEMP"
    and "no_on_edge (loop s i) es"
  shows "EMERGENCY_TEMP = 250
    \<and> system_state_of (run (loop s i) (take n es)) = Error
    \<and> \<not> heater_on (run (loop s i) (take n es))
    \<and> \<not> fan_on (run (loop s i) (take n es))
    \<and> \<not> heater_relay_pin (run (loop s i) (take n es))
    \<and> \<not> fan_control_pin (run (loop s i) (take n es))"
proof -
  from assms(1) have "error_state (loop s i) \<and> \<not> heater_on (loop s i) \<and> \<not> fan_on (loop s i)
    \<and> \<not> heater_relay_pin (loop s i) \<and> \<not> fan_control_pin (loop s i)"
    by (rule trip_latches)
  then have "error_state (run (loop s i) (take n es))
    \<and> \<not> heater_on (run (loop s i) (take n es))
    \<and> \<not> fan_on (run (loop s i) (take n es))
    \<and> \<not> heater_relay_pin (run (loop s i) (take n es))
    \<and> \<not> fan_control_pin (run (loop s i) (take n es))"
    by (simp add: latched_run)
  then show ?thesis
    by (simp add: system_state_of_def params)
qed

theorem emergency_latch_witness:
  "heater_on (loop (setup_smoker False) (cycle False 20000 100 100 100))
   \<and> top_reading (cycle False 30000 247 100 100) \<ge> EMERGENCY_TEMP
   \<and> no_on_edge
        (loop (loop (setup_smoker False) (cycle False 20000 100 100 100))
           (cycle False 30000 247 100 100))
        [Control (cycle False 30100 100 100 100), Input idle,
         Control (cycle True 30200 100 100 100)]
   \<and> system_state_of
        (loop (loop (setup_smoker False) (cycle False 20000 100 100 100))
           (cycle False 30000 247 100 100)) = Error
   \<and> \<not> heater_on
        (loop (loop (setup_smoker False) (cycle False 20000 100 100 100))
           (cycle False 30000 247 100 100))
   \<and> system_state_of
        (run (loop (loop (setup_smoker False) (cycle False 20000 100 100 100))
           (cycle False 30000 247 100 100))
          [Control (cycle False 30100 100 100 100), Input idle,
           Control (cycle True 30200 100 100 100)]) = Error
   \<and> \<not> heater_on
        (run (loop (loop (setup_smoker False) (cycle False 20000 100 100 100))
           (cycle False 30000 247 100 100))
          [Control (cycle False 30100 100 100 100), Input idle,
           Control (cycle True 30200 100 100 100)])"
proof -
  let ?s = "loop (setup_smoker False) (cycle False 20000 100 100 100)"
  let ?i = "cycle False 30000 247 100 100"
  let ?es = "[Control (cycle False 30100 100 100 100), Input idle,
         Control (cycle True 30200 100 100 100)]"
  have on: "heater_on ?s"
    by code_simp
  have top: "top_reading ?i \<ge> EMERGENCY_TEMP"
    by code_simp
  then have trip: "top_reading ?i \<ge> EMERGENCY_TEMP \<or> bottom_reading ?i \<ge> EMERGENCY_TEMP
      \<or> meat_reading ?i \<ge> EMERGENCY_TEMP"
    by (rule disjI1)
  have edge: "no_on_edge (loop ?s ?i) ?es"
    by code_simp
  note r = emergency_latch [OF trip edge]
  have "take 0 ?es = []" and "take 3 ?es = ?es"
    by simp_all
  with r [of 0] r [of 3]
  have "system_state_of (loop ?s ?i) = Error \<and> \<not> heater_on (loop ?s ?i)
      \<and> system_state_of (run (loop ?s ?i) ?es) = Error \<and> \<not> heater_on (run (loop ?s ?i) ?es)"
    by (simp only: run.simps simp_thms)
  with on top edge show ?thesis
    by (simp only: simp_thms)
qed

lemma error_state_run: "error_state s \<Longrightarrow> error_state (run s es)"
  by (induction es arbitrary: s) (simp_all add: error_state_step)

text \<open>
  Claim C1, on the code. Nothing in the source assigns \<open>False\<close> to \<^verbatim>\<open>error_state\<close>
  after its initialiser: once latched, the error survives every iteration of either loop
  (\<open>error_state_run\<close>), also an Off-to-On edge of the switch. The execution below trips
  the latch with a Top reading of 303 degrees, then reads the switch off, then on again
  with all readings at about 100 degrees. The last iteration sees the edge and no reading
  at or above the emergency temperature, and the system is still in the Error state
  with the heater off, where the header comment of the source says that toggling the
  switch off and on clears the error.
\<close>

theorem error_survives_switch_edge:
  "system_state_of (run (setup_smoker False) [Control (cycle False 20000 300 100 100)]) = Error
   \<and> on_edge
        (run (setup_smoker False)
          [Control (cycle False 20000 300 100 100), Control (cycle True 30000 100 100 100)])
        (Control (cycle False 40000 100 100 100))
   \<and> top_reading (cycle False 40000 100 100 100) < EMERGENCY_TEMP
   \<and> bottom_reading (cycle False 40000 100 100 100) < EMERGENCY_TEMP
   \<and> meat_reading (cycle False 40000 100 100 100) < EMERGENCY_TEMP
   \<and> system_state_of
        (run (setup_smoker False)
          [Control (cycle False 20000 300 100 100), Control (cycle True 30000 100 100 100),
           Control (cycle False 40000 100 100 100)]) = Error
   \<and> \<not> heater_on
        (run (setup_smoker False)
          [Control (cycle False 20000 300 100 100), Control (cycle True 30000 100 100 100),
           Control (cycle False 40000 100 100 100)])"
  by code_simp

subsection \<open>The dwell times\<close>

lemma controlHeater_dwell:
  "heater_on (controlHeater s t) \<noteq> heater_on s \<Longrightarrow>
     HEATER_CYCLE_TIME \<le> t - last_heater_toggle_time s"
  using controlHeater_turns_on [of s t] controlHeater_turns_off [of s t] by blast

lemma controlFan_dwell:
  "fan_on (controlFan s t) \<noteq> fan_on s \<Longrightarrow> FAN_CYCLE_TIME \<le> t - last_fan_toggle_time s"
  using controlFan_turns_on [of s t] controlFan_turns_off [of s t] by blast

lemma loop_heater_stamp:
  "last_heater_toggle_time (loop s i) =
     (if system_state_of (loop s i) = Running \<and> heater_on (loop s i) \<noteq> heater_on s
      then millis_heater i else last_heater_toggle_time s)"
proof (cases "system_state_of (loop s i) = Running")
  case True
  then show ?thesis
    by (simp add: loop_heater_part [OF True] controlHeater_stamp before_control_frame)
next
  case False
  then show ?thesis
    by (simp add: loop_not_running [OF False] force_off_frame before_control_frame)
qed

lemma loop_fan_stamp:
  "last_fan_toggle_time (loop s i) =
     (if system_state_of (loop s i) = Running \<and> fan_on (loop s i) \<noteq> fan_on s
      then millis_fan i else last_fan_toggle_time s)"
proof (cases "system_state_of (loop s i) = Running")
  case True
  then show ?thesis
    by (simp add: loop_fan_part [OF True] controlFan_stamp before_control_frame)
next
  case False
  then show ?thesis
    by (simp add: loop_not_running [OF False] force_off_frame before_control_frame)
qed

lemma loop_heater_dwell:
  assumes "system_state_of (loop s i) = Running" "heater_on (loop s i) \<noteq> heater_on s"
  shows "HEATER_CYCLE_TIME \<le> millis_heater i - last_heater_toggle_time s"
  using controlHeater_dwell [of "before_control s i" "millis_heater i"] assms(2)
  by (simp add: loop_heater_part [OF assms(1)] before_control_frame)

lemma loop_fan_dwell:
  assumes "system_state_of (loop s i) = Running" "fan_on (loop s i) \<noteq> fan_on s"
  shows "FAN_CYCLE_TIME \<le> millis_fan i - last_fan_toggle_time s"
  using controlFan_dwell [of "before_control s i" "millis_fan i"] assms(2)
  by (simp add: loop_fan_part [OF assms(1)] before_control_frame)

lemma heater_toggles_apart:
  "apart HEATER_CYCLE_TIME (last_heater_toggle_time s # heater_toggles s es)"
proof (induction es arbitrary: s)
  case Nil
  then show ?case by simp
next
  case (Cons e es)
  show ?case
  proof (cases e)
    case (Control i)
    show ?thesis
    proof (cases "system_state_of (loop s i) = Running \<and> heater_on (loop s i) \<noteq> heater_on s")
      case True
      then have st: "last_heater_toggle_time (loop s i) = millis_heater i"
        unfolding loop_heater_stamp [of s i] by (rule if_P)
      have tg: "heater_toggles s (e # es) = millis_heater i # heater_toggles (loop s i) es"
        unfolding Control
        by (simp only: heater_toggles.simps if_P [OF True] append_Cons append_Nil)
      from True have "system_state_of (loop s i) = Running"
        and "heater_on (loop s i) \<noteq> heater_on s"
        by blast+
      then have dw: "HEATER_CYCLE_TIME \<le> millis_heater i - last_heater_toggle_time s"
        by (rule loop_heater_dwell)
      from Cons.IH [of "loop s i"]
      have "apart HEATER_CYCLE_TIME (millis_heater i # heater_toggles (loop s i) es)"
        by (simp only: st)
      with dw show ?thesis
        by (simp add: tg)
    next
      case False
      then have st: "last_heater_toggle_time (loop s i) = last_heater_toggle_time s"
        unfolding loop_heater_stamp [of s i] by (rule if_not_P)
      have tg: "heater_toggles s (e # es) = heater_toggles (loop s i) es"
        unfolding Control
        by (simp only: heater_toggles.simps if_not_P [OF False] append_Nil)
      from Cons.IH [of "loop s i"] show ?thesis
        by (simp only: tg st)
    qed
  next
    case (Input i)
    with Cons.IH [of "loop1 s i"] show ?thesis
      by (simp add: loop1_frame)
  qed
qed

lemma fan_toggles_apart:
  "apart FAN_CYCLE_TIME (last_fan_toggle_time s # fan_toggles s es)"
proof (induction es arbitrary: s)
  case Nil
  then show ?case by simp
next
  case (Cons e es)
  show ?case
  proof (cases e)
    case (Control i)
    show ?thesis
    proof (cases "system_state_of (loop s i) = Running \<and> fan_on (loop s i) \<noteq> fan_on s")
      case True
      then have st: "last_fan_toggle_time (loop s i) = millis_fan i"
        unfolding loop_fan_stamp [of s i] by (rule if_P)
      have tg: "fan_toggles s (e # es) = millis_fan i # fan_toggles (loop s i) es"
        unfolding Control
        by (simp only: fan_toggles.simps if_P [OF True] append_Cons append_Nil)
      from True have "system_state_of (loop s i) = Running"
        and "fan_on (loop s i) \<noteq> fan_on s"
        by blast+
      then have dw: "FAN_CYCLE_TIME \<le> millis_fan i - last_fan_toggle_time s"
        by (rule loop_fan_dwell)
      from Cons.IH [of "loop s i"]
      have "apart FAN_CYCLE_TIME (millis_fan i # fan_toggles (loop s i) es)"
        by (simp only: st)
      with dw show ?thesis
        by (simp add: tg)
    next
      case False
      then have st: "last_fan_toggle_time (loop s i) = last_fan_toggle_time s"
        unfolding loop_fan_stamp [of s i] by (rule if_not_P)
      have tg: "fan_toggles s (e # es) = fan_toggles (loop s i) es"
        unfolding Control
        by (simp only: fan_toggles.simps if_not_P [OF False] append_Nil)
      from Cons.IH [of "loop s i"] show ?thesis
        by (simp only: tg st)
    qed
  next
    case (Input i)
    with Cons.IH [of "loop1 s i"] show ?thesis
      by (simp add: loop1_frame)
  qed
qed

text \<open>
  Claim C3 as stated fails on the forced switch-off. From power-up, the iteration at
  20000 ms turns the heater on (the enclosure is cold and 10 s have elapsed since the
  initial time stamp 0), and the iteration at 20100 ms reads the switch off and drives
  the heater output low: the output changes twice within 100 ms.
\<close>

theorem forced_off_breaks_dwell:
  "heater_output_changes (setup_smoker False)
      [Control (cycle False 20000 100 100 100), Control (cycle True 20100 100 100 100)]
     = [20000, 20100]
   \<and> \<not> apart HEATER_CYCLE_TIME
        (heater_output_changes (setup_smoker False)
          [Control (cycle False 20000 100 100 100), Control (cycle True 20100 100 100 100)])"
  by code_simp

text \<open>
  Claim C3, amended. For every execution, from any state, each toggle that a controller
  makes (a Running iteration in which \<^verbatim>\<open>controlHeater()\<close> or \<^verbatim>\<open>controlFan()\<close> changes its
  flag, output and time stamp) comes at least the dwell time after the previous toggle
  that the controller made, and the first of them at least the dwell time after the time
  stamp the execution starts with: 10000 ms for the heater and 60000 ms for the fan, as
  differences on the wrapping 32-bit millisecond clock. The switch-off forced in
  iterations that are not Running is not such a toggle and is exempt from the dwell
  time.
\<close>

theorem controller_toggles_dwell_apart:
  "HEATER_CYCLE_TIME = 10000 \<and> FAN_CYCLE_TIME = 60000
   \<and> apart HEATER_CYCLE_TIME (last_heater_toggle_time s # heater_toggles s es)
   \<and> apart FAN_CYCLE_TIME (last_fan_toggle_time s # fan_toggles s es)"
  using heater_toggles_apart [of s es] fan_toggles_apart [of s es]
  by (simp add: params)

theorem controller_toggles_dwell_apart_witness:
  "heater_toggles (setup_smoker False)
      [Control (cycle False 20000 100 100 100), Control (cycle False 25000 237 100 100),
       Control (cycle False 30000 237 100 100), Control (cycle True 30100 100 100 100),
       Input idle, Control (cycle False 40000 100 100 100)]
     = [20000, 30000, 40000]
   \<and> last_heater_toggle_time (setup_smoker False) = 0
   \<and> apart HEATER_CYCLE_TIME [0, 20000, 30000, 40000]
   \<and> fan_toggles (setup_smoker False)
      [Control (cycle False 20000 100 100 100), Control (cycle False 25000 237 100 100),
       Control (cycle False 30000 237 100 100), Control (cycle True 30100 100 100 100),
       Input idle, Control (cycle False 40000 100 100 100)]
     = []"
proof -
  let ?s = "setup_smoker False"
  let ?es = "[Control (cycle False 20000 100 100 100), Control (cycle False 25000 237 100 100),
       Control (cycle False 30000 237 100 100), Control (cycle True 30100 100 100 100),
       Input idle, Control (cycle False 40000 100 100 100)]"
  have h: "heater_toggles ?s ?es = [20000, 30000, 40000]"
    by code_simp
  have f: "fan_toggles ?s ?es = []"
    by code_simp
  have l: "last_heater_toggle_time ?s = 0"
    by (simp add: setup_smoker_def)
  from controller_toggles_dwell_apart [of ?s ?es]
  have "apart HEATER_CYCLE_TIME (last_heater_toggle_time ?s # heater_toggles ?s ?es)"
    by blast
  then have "apart HEATER_CYCLE_TIME [0, 20000, 30000, 40000]"
    by (simp only: h l)
  with h f l show ?thesis
    by (simp only: simp_thms)
qed

subsection \<open>The probe target step\<close>

text \<open>
  Claim C7 as stated fails: the step is not one-way. From power-up (enclosure target 230,
  probe target 190), a Running iteration with the probe reading at 190 lowers the
  enclosure target to 190. The button then selects the probe target and five detents
  clockwise bring it to 200. The next Running iteration with the probe reading at 200
  sets the enclosure target to 200: the controller has raised it again. The same happens
  whenever the probe target is above the enclosure target when the probe reaches it.
\<close>

theorem probe_step_raises_target:
  "desired_temp (run (setup_smoker False) [Control (cycle False 20000 100 100 190)]) = 190
   \<and> desired_meat_temp
        (run (setup_smoker False)
          ([Control (cycle False 20000 100 100 190), press 25000]
           @ concat (replicate 5 (detent True)))) = 200
   \<and> desired_temp
        (run (setup_smoker False)
          ([Control (cycle False 20000 100 100 190), press 25000]
           @ concat (replicate 5 (detent True)))) = 190
   \<and> desired_temp
        (run (setup_smoker False)
          ([Control (cycle False 20000 100 100 190), press 25000]
           @ concat (replicate 5 (detent True))
           @ [Control (cycle False 30000 100 100 200)])) = 200
   \<and> \<not> desired_temp
        (run (setup_smoker False)
          ([Control (cycle False 20000 100 100 190), press 25000]
           @ concat (replicate 5 (detent True))
           @ [Control (cycle False 30000 100 100 200)]))
       \<le> desired_temp
        (run (setup_smoker False)
          ([Control (cycle False 20000 100 100 190), press 25000]
           @ concat (replicate 5 (detent True))))"
  by code_simp

lemma loop_target:
  "desired_temp (loop s i) =
     (if system_state_of (loop s i) = Running \<and> meat_reading i \<ge> desired_meat_temp s
      then desired_meat_temp s else desired_temp s)"
proof (cases "system_state_of (loop s i) = Running")
  case True
  then show ?thesis
    by (simp add: loop_heater_part [OF True] controlHeater_target before_control_frame)
next
  case False
  then show ?thesis
    by (simp add: loop_not_running [OF False] force_off_frame before_control_frame)
qed

lemma loop_probe_target: "desired_meat_temp (loop s i) = desired_meat_temp s"
proof (cases "system_state_of (loop s i) = Running")
  case True
  then show ?thesis
    by (simp add: loop_is_running [OF True] controlFan_frame controlHeater_frame
        before_control_frame)
next
  case False
  then show ?thesis
    by (simp add: loop_not_running [OF False] force_off_frame before_control_frame)
qed

text \<open>
  Claim C7, amended. In an evaluation of \<^verbatim>\<open>controlHeater()\<close> with the probe reading at
  or above the probe target, the enclosure target is set equal to the probe target before
  the heater's conditions are evaluated: the evaluation is the one of a state whose
  enclosure target already was the probe target. With the probe reading below the probe
  target, the controller leaves the enclosure target as it is, so it never restores an
  earlier value. The controller does not raise the enclosure target when the probe
  target is at most the enclosure target. The probe target itself, \<^verbatim>\<open>controlFan()\<close> and
  the forced switch-off do not touch the enclosure target, and an iteration of
  \<^verbatim>\<open>loop()\<close> changes it by this step only, so later iterations start from the value
  that the step stored.
\<close>

theorem probe_target_convergence:
  "(meat_temp s \<ge> desired_meat_temp s
      \<longrightarrow> desired_temp (controlHeater s t) = desired_meat_temp s
          \<and> controlHeater s t = controlHeater (s\<lparr>desired_temp := desired_meat_temp s\<rparr>) t)
   \<and> (meat_temp s < desired_meat_temp s \<longrightarrow> desired_temp (controlHeater s t) = desired_temp s)
   \<and> (desired_meat_temp s \<le> desired_temp s
      \<longrightarrow> desired_temp (controlHeater s t) \<le> desired_temp s)
   \<and> desired_meat_temp (controlHeater s t) = desired_meat_temp s
   \<and> desired_temp (controlFan s t) = desired_temp s
   \<and> desired_temp (force_off s) = desired_temp s
   \<and> desired_temp (loop s i) =
       (if system_state_of (loop s i) = Running \<and> meat_reading i \<ge> desired_meat_temp s
        then desired_meat_temp s else desired_temp s)
   \<and> desired_meat_temp (loop s i) = desired_meat_temp s"
proof -
  have a: "controlHeater s t = controlHeater (s\<lparr>desired_temp := desired_meat_temp s\<rparr>) t"
    if "meat_temp s \<ge> desired_meat_temp s"
    using that by (simp add: controlHeater_def Let_def)
  from a loop_target [of s i] show ?thesis
    by (simp add: controlHeater_target controlHeater_frame controlFan_frame force_off_frame
        loop_probe_target)
qed

theorem probe_target_convergence_witness:
  "meat_temp ((setup_smoker False)\<lparr>top_temp := 200, meat_temp := 195\<rparr>)
     \<ge> desired_meat_temp ((setup_smoker False)\<lparr>top_temp := 200, meat_temp := 195\<rparr>)
   \<and> desired_meat_temp ((setup_smoker False)\<lparr>top_temp := 200, meat_temp := 195\<rparr>)
     \<le> desired_temp ((setup_smoker False)\<lparr>top_temp := 200, meat_temp := 195\<rparr>)
   \<and> desired_temp ((setup_smoker False)\<lparr>top_temp := 200, meat_temp := 195\<rparr>) = 230
   \<and> desired_temp
        (controlHeater ((setup_smoker False)\<lparr>top_temp := 200, meat_temp := 195\<rparr>) 20000) = 190
   \<and> \<not> heater_on
        (controlHeater ((setup_smoker False)\<lparr>top_temp := 200, meat_temp := 195\<rparr>) 20000)
   \<and> meat_temp ((setup_smoker False)\<lparr>top_temp := 200\<rparr>)
     < desired_meat_temp ((setup_smoker False)\<lparr>top_temp := 200\<rparr>)
   \<and> desired_temp (controlHeater ((setup_smoker False)\<lparr>top_temp := 200\<rparr>) 20000) = 230
   \<and> heater_on (controlHeater ((setup_smoker False)\<lparr>top_temp := 200\<rparr>) 20000)
   \<and> desired_temp (loop (setup_smoker False) (cycle False 20000 197 197 195)) = 190"
proof -
  let ?a = "(setup_smoker False)\<lparr>top_temp := 200, meat_temp := 195\<rparr>"
  let ?b = "(setup_smoker False)\<lparr>top_temp := 200\<rparr>"
  let ?i = "cycle False 20000 197 197 195"
  note ra = probe_target_convergence [of ?a 20000 ?i]
  note rb = probe_target_convergence [of ?b 20000 ?i]
  note rc = probe_target_convergence [of "setup_smoker False" 20000 ?i]
  have a: "meat_temp ?a \<ge> desired_meat_temp ?a \<and> desired_meat_temp ?a \<le> desired_temp ?a"
    by code_simp
  have a': "desired_temp ?a = 230 \<and> desired_meat_temp ?a = 190"
    by code_simp
  have b: "meat_temp ?b < desired_meat_temp ?b \<and> desired_temp ?b = 230"
    by code_simp
  have c: "system_state_of (loop (setup_smoker False) ?i) = Running
      \<and> meat_reading ?i \<ge> desired_meat_temp (setup_smoker False)
      \<and> desired_meat_temp (setup_smoker False) = 190"
    by code_simp
  have h: "\<not> heater_on (controlHeater ?a 20000) \<and> heater_on (controlHeater ?b 20000)"
    by code_simp
  from ra have "meat_temp ?a \<ge> desired_meat_temp ?a
      \<longrightarrow> desired_temp (controlHeater ?a 20000) = desired_meat_temp ?a"
    by blast
  with a a' have ta: "desired_temp (controlHeater ?a 20000) = 190"
    by simp
  from rb have "meat_temp ?b < desired_meat_temp ?b
      \<longrightarrow> desired_temp (controlHeater ?b 20000) = desired_temp ?b"
    by blast
  with b have tb: "desired_temp (controlHeater ?b 20000) = 230"
    by simp
  from rc have "desired_temp (loop (setup_smoker False) ?i) =
      (if system_state_of (loop (setup_smoker False) ?i) = Running
          \<and> meat_reading ?i \<ge> desired_meat_temp (setup_smoker False)
       then desired_meat_temp (setup_smoker False) else desired_temp (setup_smoker False))"
    by blast
  with c have tc: "desired_temp (loop (setup_smoker False) ?i) = 190"
    by simp
  from a a' b h ta tb tc show ?thesis
    by blast
qed

subsection \<open>The encoder and the button\<close>



lemma c_rem_toggle: "c_rem (0 + 1) 2 = 1" "c_rem (1 + 1) 2 = 0"
  by (simp_all add: c_rem_def)






end
